theory Spec2Isabelle
  imports Main "HOL-Library.List_Lexorder"
begin

section \<open>Python values\<close>

text \<open>
  A Python \<open>str\<close> is a sequence of Unicode code points: \<open>len\<close> counts code points and
  the program's patterns name Chinese characters, so a string is a list of naturals
  (the code points), not a list of bytes.
\<close>

type_synonym ustr = "nat list"

definition asc :: "string \<Rightarrow> ustr" where
  \<comment> \<open>an ASCII literal of the source as code points\<close>
  "asc s = map of_char s"

text \<open>
  The tables of the interpreter, which are not code of this repository, are parameters
  of the model: the decimal value of a character (\<open>\d\<close> of \<open>re\<close>, \<open>int\<close>),
  \<open>str.isalnum\<close> (\<open>\w\<close> is an alphanumeric or the underscore), \<open>str.isprintable\<close>,
  \<open>str.lower\<close>, and the limit \<open>sys.get_int_max_str_digits()\<close> on the digits
  \<open>int\<close> converts (0 switches the limit off, 4300 is the default since Python 3.11).
\<close>

record runtime =
  decimal_of :: "nat \<Rightarrow> nat option"
  is_alnum :: "nat \<Rightarrow> bool"
  is_printable :: "nat \<Rightarrow> bool"
  str_lower :: "ustr \<Rightarrow> ustr"
  int_max_str_digits :: nat

datatype error = ValueError

subsection \<open>Character classes\<close>

definition is_space :: "nat \<Rightarrow> bool" where
  \<comment> \<open>\<open>str.isspace\<close>, the set \<open>str.strip()\<close> removes and \<open>\s\<close> matches\<close>
  "is_space c = ((9 \<le> c \<and> c \<le> 13) \<or> (28 \<le> c \<and> c \<le> 32) \<or> c = 133 \<or> c = 160
     \<or> c = 5760 \<or> (8192 \<le> c \<and> c \<le> 8202) \<or> c = 8232 \<or> c = 8233 \<or> c = 8239
     \<or> c = 8287 \<or> c = 12288)"

definition is_linebreak :: "nat \<Rightarrow> bool" where
  \<comment> \<open>the line boundaries of \<open>str.splitlines()\<close>\<close>
  "is_linebreak c = ((10 \<le> c \<and> c \<le> 13) \<or> (28 \<le> c \<and> c \<le> 30) \<or> c = 133
     \<or> c = 8232 \<or> c = 8233)"

definition is_digit :: "runtime \<Rightarrow> nat \<Rightarrow> bool" where
  \<comment> \<open>\<open>\d\<close>\<close>
  "is_digit U c = (decimal_of U c \<noteq> None)"

definition is_word :: "runtime \<Rightarrow> nat \<Rightarrow> bool" where
  \<comment> \<open>\<open>\w\<close>\<close>
  "is_word U c = (is_alnum U c \<or> c = 95)"

definition is_upper_az :: "nat \<Rightarrow> bool" where
  "is_upper_az c = (65 \<le> c \<and> c \<le> 90)"

definition is_lower_az :: "nat \<Rightarrow> bool" where
  "is_lower_az c = (97 \<le> c \<and> c \<le> 122)"

definition is_digit09 :: "nat \<Rightarrow> bool" where
  "is_digit09 c = (48 \<le> c \<and> c \<le> 57)"

definition is_hex :: "nat \<Rightarrow> bool" where
  \<comment> \<open>\<open>c in "0123456789ABCDEFabcdef"\<close>\<close>
  "is_hex c = (is_digit09 c \<or> (65 \<le> c \<and> c \<le> 70) \<or> (97 \<le> c \<and> c \<le> 102))"

subsection \<open>String methods\<close>

definition lstrip :: "ustr \<Rightarrow> ustr" where
  "lstrip s = dropWhile is_space s"

definition rstrip :: "ustr \<Rightarrow> ustr" where
  "rstrip s = rev (dropWhile is_space (rev s))"

definition strip :: "ustr \<Rightarrow> ustr" where
  "strip s = rstrip (lstrip s)"

fun splitlines :: "ustr \<Rightarrow> ustr list" where
  "splitlines [] = []"
| "splitlines [c] = (if is_linebreak c then [[]] else [[c]])"
| "splitlines (c # d # cs) =
     (if c = 13 \<and> d = 10 then [] # splitlines cs
      else if is_linebreak c then [] # splitlines (d # cs)
      else (case splitlines (d # cs) of [] \<Rightarrow> [[c]] | l # ls \<Rightarrow> (c # l) # ls))"

fun join :: "ustr \<Rightarrow> ustr list \<Rightarrow> ustr" where
  "join sep [] = []"
| "join sep [x] = x"
| "join sep (x # y # ys) = x @ sep @ join sep (y # ys)"

fun str_split :: "nat \<Rightarrow> ustr \<Rightarrow> ustr list" where
  \<comment> \<open>\<open>s.split(c)\<close> for a separator of one character\<close>
  "str_split sep [] = [[]]"
| "str_split sep (c # cs) =
     (if c = sep then [] # str_split sep cs
      else (case str_split sep cs of [] \<Rightarrow> [[c]] | l # ls \<Rightarrow> (c # l) # ls))"

fun starts_with :: "ustr \<Rightarrow> ustr \<Rightarrow> bool" where
  \<comment> \<open>\<open>starts_with p s\<close>: \<open>s.startswith(p)\<close>\<close>
  "starts_with [] s = True"
| "starts_with (p # ps) [] = False"
| "starts_with (p # ps) (c # cs) = (p = c \<and> starts_with ps cs)"

fun contains :: "ustr \<Rightarrow> ustr \<Rightarrow> bool" where
  \<comment> \<open>\<open>contains p s\<close>: \<open>p in s\<close>\<close>
  "contains p [] = (p = [])"
| "contains p (c # cs) = (starts_with p (c # cs) \<or> contains p cs)"

fun str_find :: "ustr \<Rightarrow> ustr \<Rightarrow> nat option" where
  \<comment> \<open>\<open>s.find(p)\<close>, \<open>None\<close> for -1\<close>
  "str_find p [] = (if p = [] then Some 0 else None)"
| "str_find p (c # cs) =
     (if starts_with p (c # cs) then Some 0 else map_option Suc (str_find p cs))"

function str_replace :: "ustr \<Rightarrow> ustr \<Rightarrow> ustr \<Rightarrow> ustr" where
  \<comment> \<open>\<open>s.replace(old, new)\<close> for a non-empty \<open>old\<close>\<close>
  "str_replace old new [] = []"
| "str_replace old new (c # cs) =
     (if old \<noteq> [] \<and> starts_with old (c # cs)
      then new @ str_replace old new (drop (length old) (c # cs))
      else c # str_replace old new cs)"
  by pat_completeness auto
termination
  by (relation "measure (\<lambda>(old, new, s). length s)") (auto simp: neq_Nil_conv)

subsection \<open>Regular expressions\<close>

text \<open>
  The patterns of the program, as \<open>re\<close> reads them: a backtracking matcher whose
  alternatives are tried in order. A match state is the character before the position
  (for \<open>^\<close> and \<open>\b\<close>), the text from the position on, and the groups captured so far,
  the latest first. \<open>mt r st\<close> lists every state in which a match of \<open>r\<close> from \<open>st\<close>
  can end, in the order in which backtracking reaches them: the head is the match
  \<open>re\<close> reports.
\<close>

datatype rx =
    REps
  | RSet "nat \<Rightarrow> bool"
  | RBol
  | RWordb "nat \<Rightarrow> bool"
  | RSeq rx rx
  | RAlt rx rx
  | RRep rx nat "nat option" bool
  | RGrp nat rx

type_synonym mstate = "nat option \<times> ustr \<times> (nat \<times> ustr) list"

fun step :: "(nat \<Rightarrow> bool) \<Rightarrow> mstate \<Rightarrow> mstate list" where
  "step P (prev, [], caps) = []"
| "step P (prev, c # cs, caps) = (if P c then [(Some c, cs, caps)] else [])"

fun at_wordb :: "(nat \<Rightarrow> bool) \<Rightarrow> mstate \<Rightarrow> bool" where
  \<comment> \<open>\<open>\b\<close>: exactly one of the characters before and after the position is a word character\<close>
  "at_wordb w (prev, rest, caps) =
     ((case prev of None \<Rightarrow> False | Some c \<Rightarrow> w c) \<noteq> (case rest of [] \<Rightarrow> False | c # _ \<Rightarrow> w c))"

fun rep :: "(mstate \<Rightarrow> mstate list) \<Rightarrow> bool \<Rightarrow> nat \<Rightarrow> nat \<Rightarrow> mstate \<Rightarrow> mstate list" where
  \<comment> \<open>\<open>lo\<close> iterations that must follow, then up to \<open>n\<close> more; greedy tries one more first\<close>
  "rep f g (Suc lo) n st = concat (map (rep f g lo n) (f st))"
| "rep f g 0 (Suc n) st =
     (if g then concat (map (rep f g 0 n) (f st)) @ [st]
      else st # concat (map (rep f g 0 n) (f st)))"
| "rep f g 0 0 st = [st]"

fun capture :: "nat \<Rightarrow> ustr \<Rightarrow> mstate \<Rightarrow> mstate" where
  "capture n rest0 (prev, rest, caps) =
     (prev, rest, (n, take (length rest0 - length rest) rest0) # caps)"

primrec mt :: "rx \<Rightarrow> mstate \<Rightarrow> mstate list" where
  "mt REps st = [st]"
| "mt (RSet P) st = step P st"
| "mt RBol st = (if fst st = None then [st] else [])"
| "mt (RWordb w) st = (if at_wordb w st then [st] else [])"
| "mt (RSeq a b) st = concat (map (mt b) (mt a st))"
| "mt (RAlt a b) st = mt a st @ mt b st"
| "mt (RRep r lo hi g) st =
     rep (mt r) g lo (case hi of Some h \<Rightarrow> h - lo | None \<Rightarrow> length (fst (snd st))) st"
| "mt (RGrp n r) st = map (capture n (fst (snd st))) (mt r st)"


type_synonym groups = "(nat \<times> ustr) list"

definition group :: "groups \<Rightarrow> nat \<Rightarrow> ustr option" where
  \<comment> \<open>\<open>m.group(n)\<close>; \<open>None\<close> when the group took no part in the match\<close>
  "group caps n = map_of caps n"

fun re_search_at :: "rx \<Rightarrow> nat option \<Rightarrow> ustr \<Rightarrow> groups option" where
  "re_search_at r prev [] =
     (case mt r (prev, [], []) of [] \<Rightarrow> None | m # _ \<Rightarrow> Some (snd (snd m)))"
| "re_search_at r prev (c # cs) =
     (case mt r (prev, c # cs, []) of
        [] \<Rightarrow> re_search_at r (Some c) cs
      | m # _ \<Rightarrow> Some (snd (snd m)))"

definition re_search :: "rx \<Rightarrow> ustr \<Rightarrow> groups option" where
  \<comment> \<open>\<open>re.search\<close>: the first position from which the pattern matches\<close>
  "re_search r s = re_search_at r None s"

definition re_fullmatch :: "rx \<Rightarrow> ustr \<Rightarrow> groups option" where
  \<comment> \<open>\<open>re.fullmatch\<close>: a match from the start that ends at the end of the string\<close>
  "re_fullmatch r s =
     (case filter (\<lambda>m. fst (snd m) = []) (mt r (None, s, [])) of
        [] \<Rightarrow> None
      | m # _ \<Rightarrow> Some (snd (snd m)))"

text \<open>
  \<open>re.sub\<close> and \<open>re.finditer\<close> scan from the left and go on after each match. No
  pattern of the program matches the empty string; after an empty match the scan moves
  on by one character.
\<close>

function re_sub_fn :: "rx \<Rightarrow> (groups \<Rightarrow> error + ustr) \<Rightarrow> nat option \<Rightarrow> ustr \<Rightarrow> error + ustr" where
  "re_sub_fn r f prev [] =
     (case mt r (prev, [], []) of [] \<Rightarrow> Inr [] | m # _ \<Rightarrow> f (snd (snd m)))"
| "re_sub_fn r f prev (c # cs) =
     (case mt r (prev, c # cs, []) of
        [] \<Rightarrow> (case re_sub_fn r f (Some c) cs of Inl e \<Rightarrow> Inl e | Inr t \<Rightarrow> Inr (c # t))
      | m # _ \<Rightarrow>
          (case f (snd (snd m)) of
             Inl e \<Rightarrow> Inl e
           | Inr new \<Rightarrow>
               if length (fst (snd m)) < Suc (length cs)
               then (case re_sub_fn r f (fst m) (fst (snd m)) of
                       Inl e \<Rightarrow> Inl e | Inr t \<Rightarrow> Inr (new @ t))
               else (case re_sub_fn r f (Some c) cs of
                       Inl e \<Rightarrow> Inl e | Inr t \<Rightarrow> Inr (new @ c # t))))"
  by pat_completeness auto
termination
  by (relation "measure (\<lambda>(r, f, prev, s). length s)") auto

function re_sub_at :: "rx \<Rightarrow> ustr \<Rightarrow> nat option \<Rightarrow> ustr \<Rightarrow> ustr" where
  "re_sub_at r new prev [] = (case mt r (prev, [], []) of [] \<Rightarrow> [] | m # _ \<Rightarrow> new)"
| "re_sub_at r new prev (c # cs) =
     (case mt r (prev, c # cs, []) of
        [] \<Rightarrow> c # re_sub_at r new (Some c) cs
      | m # _ \<Rightarrow>
          if length (fst (snd m)) < Suc (length cs)
          then new @ re_sub_at r new (fst m) (fst (snd m))
          else new @ c # re_sub_at r new (Some c) cs)"
  by pat_completeness auto
termination
  by (relation "measure (\<lambda>(r, new, prev, s). length s)") auto

definition re_sub :: "rx \<Rightarrow> ustr \<Rightarrow> ustr \<Rightarrow> ustr" where
  \<comment> \<open>\<open>re.sub(r, new, s)\<close> for a replacement string without group references\<close>
  "re_sub r new s = re_sub_at r new None s"

function re_finditer_at :: "rx \<Rightarrow> nat option \<Rightarrow> ustr \<Rightarrow> groups list" where
  "re_finditer_at r prev [] =
     (case mt r (prev, [], []) of [] \<Rightarrow> [] | m # _ \<Rightarrow> [snd (snd m)])"
| "re_finditer_at r prev (c # cs) =
     (case mt r (prev, c # cs, []) of
        [] \<Rightarrow> re_finditer_at r (Some c) cs
      | m # _ \<Rightarrow>
          if length (fst (snd m)) < Suc (length cs)
          then snd (snd m) # re_finditer_at r (fst m) (fst (snd m))
          else snd (snd m) # re_finditer_at r (Some c) cs)"
  by pat_completeness auto
termination
  by (relation "measure (\<lambda>(r, prev, s). length s)") auto

definition re_finditer :: "rx \<Rightarrow> ustr \<Rightarrow> groups list" where
  "re_finditer r s = re_finditer_at r None s"

subsection \<open>Pattern syntax\<close>

definition rchr :: "nat \<Rightarrow> rx" where
  "rchr c = RSet (\<lambda>x. x = c)"

definition rstr :: "ustr \<Rightarrow> rx" where
  "rstr s = foldr (\<lambda>c r. RSeq (rchr c) r) s REps"

definition rseq :: "rx list \<Rightarrow> rx" where
  "rseq rs = foldr RSeq rs REps"

fun ralt :: "rx list \<Rightarrow> rx" where
  "ralt [] = REps"
| "ralt [r] = r"
| "ralt (r # q # rs) = RAlt r (ralt (q # rs))"

definition rstar :: "rx \<Rightarrow> rx" where
  \<comment> \<open>\<open>r*\<close>\<close>
  "rstar r = RRep r 0 None True"

definition rplus :: "rx \<Rightarrow> rx" where
  \<comment> \<open>\<open>r+\<close>\<close>
  "rplus r = RRep r 1 None True"

definition ropt :: "rx \<Rightarrow> rx" where
  \<comment> \<open>\<open>r?\<close>\<close>
  "ropt r = RRep r 0 (Some 1) True"

definition rdot :: rx where
  \<comment> \<open>\<open>.\<close> without DOTALL: any character but the newline\<close>
  "rdot = RSet (\<lambda>c. c \<noteq> 10)"

definition rchars :: "ustr \<Rightarrow> rx" where
  \<comment> \<open>a class that lists its characters, as \<open>[ \t]\<close>\<close>
  "rchars cs = RSet (\<lambda>c. c \<in> set cs)"


section \<open>The program\<close>

subsection \<open>Numbers and dates of the interpreter\<close>

fun digits_value :: "runtime \<Rightarrow> int \<Rightarrow> ustr \<Rightarrow> int option" where
  "digits_value U acc [] = Some acc"
| "digits_value U acc (c # cs) =
     (case decimal_of U c of
        None \<Rightarrow> None
      | Some d \<Rightarrow> digits_value U (10 * acc + int d) cs)"

definition py_int :: "runtime \<Rightarrow> ustr \<Rightarrow> error + int" where
  \<comment> \<open>\<open>int(s)\<close> on what the patterns capture: an optional minus sign and decimal digits.
      No digit at all, or more digits than the limit, is a ValueError.\<close>
  "py_int U s =
     (let neg = (s \<noteq> [] \<and> hd s = 45);
          ds = (if neg then tl s else s)
      in if ds = [] then Inl ValueError
         else if int_max_str_digits U \<noteq> 0 \<and> int_max_str_digits U < length ds
         then Inl ValueError
         else (case digits_value U 0 ds of
                 None \<Rightarrow> Inl ValueError
               | Some v \<Rightarrow> Inr (if neg then - v else v)))"

record datetime =
  year :: int
  month :: int
  day :: int
  hour :: int
  minute :: int

definition is_leap :: "int \<Rightarrow> bool" where
  "is_leap y = (y mod 4 = 0 \<and> (y mod 100 \<noteq> 0 \<or> y mod 400 = 0))"

definition days_in_month :: "int \<Rightarrow> int \<Rightarrow> int" where
  "days_in_month y m =
     (if m = 2 then (if is_leap y then 29 else 28)
      else if m = 4 \<or> m = 6 \<or> m = 9 \<or> m = 11 then 30 else 31)"

definition valid_datetime :: "datetime \<Rightarrow> bool" where
  "valid_datetime dt =
     (1 \<le> year dt \<and> year dt \<le> 9999 \<and> 1 \<le> month dt \<and> month dt \<le> 12
      \<and> 1 \<le> day dt \<and> day dt \<le> days_in_month (year dt) (month dt)
      \<and> 0 \<le> hour dt \<and> hour dt \<le> 23 \<and> 0 \<le> minute dt \<and> minute dt \<le> 59)"

definition new_datetime :: "int \<Rightarrow> int \<Rightarrow> int \<Rightarrow> int \<Rightarrow> int \<Rightarrow> error + datetime" where
  \<comment> \<open>\<open>datetime.datetime(y, mo, d, hh, mm)\<close>: a field out of range is a ValueError\<close>
  "new_datetime y mo d hh mm =
     (let dt = \<lparr>year = y, month = mo, day = d, hour = hh, minute = mm\<rparr>
      in if valid_datetime dt then Inr dt else Inl ValueError)"

definition digit_chr :: "int \<Rightarrow> nat" where
  "digit_chr d = 48 + nat d"

definition zpad2 :: "int \<Rightarrow> ustr" where
  "zpad2 n = [digit_chr (n div 10), digit_chr (n mod 10)]"

definition zpad4 :: "int \<Rightarrow> ustr" where
  "zpad4 n = [digit_chr (n div 1000), digit_chr (n div 100 mod 10),
              digit_chr (n div 10 mod 10), digit_chr (n mod 10)]"

definition isoformat :: "datetime \<Rightarrow> ustr" where
  \<comment> \<open>\<open>dt.isoformat(sep=" ")\<close> of a datetime whose seconds and microseconds are zero\<close>
  "isoformat dt =
     zpad4 (year dt) @ [45] @ zpad2 (month dt) @ [45] @ zpad2 (day dt) @ [32]
     @ zpad2 (hour dt) @ [58] @ zpad2 (minute dt) @ [58] @ zpad2 0"

subsection \<open>RTF to text\<close>

definition grp :: "groups \<Rightarrow> nat \<Rightarrow> ustr" where
  \<comment> \<open>\<open>m.group(n)\<close> of a group that takes part in every match of its pattern\<close>
  "grp m n = (case group m n of None \<Rightarrow> [] | Some s \<Rightarrow> s)"

definition chr_or_empty :: "int \<Rightarrow> ustr" where
  \<comment> \<open>\<open>try: return chr(n) / except Exception: return ""\<close>\<close>
  "chr_or_empty n = (if 0 \<le> n \<and> n \<le> 1114111 then [nat n] else [])"

definition uni_repl :: "runtime \<Rightarrow> groups \<Rightarrow> error + ustr" where
  "uni_repl U m =
     (case py_int U (grp m 1) of
        Inl e \<Rightarrow> Inl e
      | Inr n \<Rightarrow> Inr (chr_or_empty (if n < 0 then n + 65536 else n)))"

definition hex_val :: "nat \<Rightarrow> nat" where
  "hex_val c = (if is_digit09 c then c - 48 else if 97 \<le> c then c - 87 else c - 55)"

definition cp1252_high :: "nat list" where
  \<comment> \<open>the code page's bytes 0x80 to 0x9F; 0 marks the five undefined bytes\<close>
  "cp1252_high =
     [8364, 0, 8218, 402, 8222, 8230, 8224, 8225, 710, 8240, 352, 8249, 338, 0, 381, 0,
      0, 8216, 8217, 8220, 8221, 8226, 8211, 8212, 732, 8482, 353, 8250, 339, 0, 382, 376]"

definition cp1252 :: "nat \<Rightarrow> ustr" where
  \<comment> \<open>\<open>bytes([b]).decode("cp1252", errors="ignore")\<close>\<close>
  "cp1252 b =
     (if b < 128 \<or> 160 \<le> b then [b]
      else (let c = cp1252_high ! (b - 128) in if c = 0 then [] else [c]))"

definition hex_repl :: "groups \<Rightarrow> error + ustr" where
  "hex_repl m =
     (case grp m 1 of
        [h, l] \<Rightarrow> Inr (cp1252 (16 * hex_val h + hex_val l))
      | _ \<Rightarrow> Inr [])"

definition is_az :: "nat \<Rightarrow> bool" where
  \<comment> \<open>\<open>[a-zA-Z]\<close>\<close>
  "is_az c = (is_upper_az c \<or> is_lower_az c)"

definition UNI_RE :: "runtime \<Rightarrow> rx" where
  \<comment> \<open>\<open>\\u(-?\d+)\??\<close>\<close>
  "UNI_RE U = rseq [rchr 92, rchr 117,
                    RGrp 1 (RSeq (ropt (rchr 45)) (rplus (RSet (is_digit U)))),
                    ropt (rchr 63)]"

definition HEX_RE :: rx where
  \<comment> \<open>\<open>\\'([0-9a-fA-F]{2})\<close>\<close>
  "HEX_RE = rseq [rchr 92, rchr 39, RGrp 1 (RRep (RSet is_hex) 2 (Some 2) True)]"

definition CTRL_WORD_RE :: "runtime \<Rightarrow> rx" where
  \<comment> \<open>\<open>\\[a-zA-Z]+\d* ?\<close>\<close>
  "CTRL_WORD_RE U = rseq [rchr 92, rplus (RSet is_az), rstar (RSet (is_digit U)),
                          ropt (rchr 32)]"

definition CTRL_SYM_RE :: rx where
  \<comment> \<open>\<open>\\[^a-zA-Z]\<close>\<close>
  "CTRL_SYM_RE = rseq [rchr 92, RSet (\<lambda>c. \<not> is_az c)]"

definition NL3_RE :: rx where
  \<comment> \<open>\<open>\n{3,}\<close>\<close>
  "NL3_RE = RRep (rchr 10) 3 None True"

definition TRAIL_WS_RE :: rx where
  \<comment> \<open>\<open>[ \t]+\n\<close>\<close>
  "TRAIL_WS_RE = rseq [rplus (rchars [32, 9]), rchr 10]"

definition rtf_to_text :: "runtime \<Rightarrow> ustr \<Rightarrow> error + ustr" where
  "rtf_to_text U rtf =
     (let s = str_replace [13] [10] (str_replace [13, 10] [10] rtf)
      in case re_sub_fn (UNI_RE U) (uni_repl U) None s of
           Inl e \<Rightarrow> Inl e
         | Inr s \<Rightarrow>
        (case re_sub_fn HEX_RE hex_repl None s of
           Inl e \<Rightarrow> Inl e
         | Inr s \<Rightarrow>
             (let s = str_replace (92 # asc ''line'') [10] (str_replace (92 # asc ''par'') [10] s);
                  s = re_sub (CTRL_WORD_RE U) [] s;
                  s = re_sub CTRL_SYM_RE [] s;
                  s = str_replace (asc ''}'') [] (str_replace (asc ''{'') [] s);
                  s = re_sub NL3_RE [10, 10] s;
                  s = re_sub TRAIL_WS_RE [10] s
              in Inr (strip s))))"

subsection \<open>The noise filter\<close>

definition hex_count :: "ustr \<Rightarrow> nat" where
  \<comment> \<open>\<open>sum(c in "0123456789ABCDEFabcdef" for c in l)\<close>\<close>
  "hex_count l = length (filter is_hex l)"

text \<open>
  The two ratio tests divide in floating point. The quotient of two integers is the
  double nearest to the exact quotient, \<open>0.75\<close> is a double and \<open>0.8\<close> is read as the
  double nearest to 4/5, so for lines shorter than \<open>2^50\<close> characters
  \<open>h / n > 0.75\<close> is \<open>4 * h > 3 * n\<close> and \<open>h / n > 0.8\<close> is \<open>5 * h > 4 * n\<close>: the
  model compares the integers.
\<close>

definition printable_line :: "runtime \<Rightarrow> ustr \<Rightarrow> ustr" where
  \<comment> \<open>\<open>"".join(c if c.isprintable() else " " for c in l)\<close>\<close>
  "printable_line U l = map (\<lambda>c. if is_printable U c then c else 32) l"

fun clean_lines :: "runtime \<Rightarrow> ustr list \<Rightarrow> ustr list" where
  \<comment> \<open>the loop of \<open>clean_factiva_text\<close>: the \<open>out_lines\<close> it builds from the lines left\<close>
  "clean_lines U [] = []"
| "clean_lines U (line # rest) =
     (let l = strip line
      in if l = [] then [] # clean_lines U rest
         else if 120 < length l \<and> 3 * max 1 (length l) < 4 * hex_count l
         then clean_lines U rest
         else printable_line U l # clean_lines U rest)"

definition noise_line :: "ustr \<Rightarrow> bool" where
  \<comment> \<open>the test of that loop that drops a stripped line: more than 120 characters, more
      than 0.75 of them hexadecimal digits\<close>
  "noise_line l = (120 < length l \<and> 3 * length l < 4 * hex_count l)"

definition clean_factiva_text :: "runtime \<Rightarrow> ustr \<Rightarrow> ustr" where
  "clean_factiva_text U t =
     strip (re_sub NL3_RE [10, 10] (join [10] (clean_lines U (splitlines t))))"

definition TOC_LINK_RE :: "runtime \<Rightarrow> rx" where
  \<comment> \<open>\<open>HYPERLINK\s+toc\d+"\<close>\<close>
  "TOC_LINK_RE U = rseq [rstr (asc ''HYPERLINK''), rplus (RSet is_space), rstr (asc ''toc''),
                         rplus (RSet (is_digit U)), rchr 34]"

definition D_PAGE_RE :: "runtime \<Rightarrow> rx" where
  \<comment> \<open>\<open>\bd Page\b.*\<close>\<close>
  "D_PAGE_RE U = rseq [RWordb (is_word U), rstr (asc ''d Page''), RWordb (is_word U),
                       rstar rdot]"

definition PAGE_RE :: "runtime \<Rightarrow> rx" where
  \<comment> \<open>\<open>\bPAGE\d+\b\<close>\<close>
  "PAGE_RE U = rseq [RWordb (is_word U), rstr (asc ''PAGE''), rplus (RSet (is_digit U)),
                     RWordb (is_word U)]"

definition NUMPAGES_RE :: "runtime \<Rightarrow> rx" where
  \<comment> \<open>\<open>\bNUMPAGES\d+\b\<close>\<close>
  "NUMPAGES_RE U = rseq [RWordb (is_word U), rstr (asc ''NUMPAGES''),
                         rplus (RSet (is_digit U)), RWordb (is_word U)]"

definition preprocess :: "runtime \<Rightarrow> ustr \<Rightarrow> ustr" where
  "preprocess U t =
     (let t = str_replace [92, 39] [39] t;
          t = re_sub (TOC_LINK_RE U) [10] t;
          t = re_sub (D_PAGE_RE U) [] t;
          t = re_sub (PAGE_RE U) [] t;
          t = re_sub (NUMPAGES_RE U) [] t;
          t = re_sub NL3_RE [10, 10] t;
          t = re_sub (RRep (rchars [32, 9]) 2 None True) [32] t;
          t = re_sub (rseq [rchr 10, rplus (rchars [32, 9])]) [10] t
      in strip t)"


subsection \<open>Parsing helpers\<close>

definition WORDCOUNT_RE :: "runtime \<Rightarrow> rx" where
  \<comment> \<open>\<open>^\s*([\d,]+)\s*\<close> and then the character U+5B57 (23383), the word-count marker\<close>
  "WORDCOUNT_RE U = rseq [RBol, rstar (RSet is_space),
                          RGrp 1 (rplus (RSet (\<lambda>c. is_digit U c \<or> c = 44))),
                          rstar (RSet is_space), rchr 23383]"

definition FILE_ID_PATTERN :: "runtime \<Rightarrow> rx" where
  \<comment> \<open>\<open>\b[A-Z]{2,10}\d{8,}[A-Za-z0-9]{3,}\b\<close>\<close>
  "FILE_ID_PATTERN U = rseq [RWordb (is_word U), RRep (RSet is_upper_az) 2 (Some 10) True,
                             RRep (RSet (is_digit U)) 8 None True,
                             RRep (RSet (\<lambda>c. is_az c \<or> is_digit09 c)) 3 None True,
                             RWordb (is_word U)]"

definition DATE_RE :: "runtime \<Rightarrow> rx" where
  \<comment> \<open>\<open>(\d{4}).{0,10}?(\d{1,2}).{0,10}?(\d{1,2}).{0,10}?\<close>, the day marker U+65E5 (26085),
      and \<open>(?:.{0,10}?(\d{1,2}):(\d{2}))?\<close>\<close>
  "DATE_RE U =
     (let d = RSet (is_digit U); gap = RRep rdot 0 (Some 10) False
      in rseq [RGrp 1 (RRep d 4 (Some 4) True), gap,
               RGrp 2 (RRep d 1 (Some 2) True), gap,
               RGrp 3 (RRep d 1 (Some 2) True), gap, rchr 26085,
               ropt (rseq [gap, RGrp 4 (RRep d 1 (Some 2) True), rchr 58,
                           RGrp 5 (RRep d 2 (Some 2) True)])])"

definition int_or_zero :: "runtime \<Rightarrow> ustr option \<Rightarrow> error + int" where
  \<comment> \<open>\<open>int(g or 0)\<close>\<close>
  "int_or_zero U g = (case g of None \<Rightarrow> Inr 0 | Some s \<Rightarrow> if s = [] then Inr 0 else py_int U s)"

definition parse_factiva_date :: "runtime \<Rightarrow> ustr \<Rightarrow> error + datetime option" where
  "parse_factiva_date U line =
     (case re_search (DATE_RE U) (strip line) of
        None \<Rightarrow> Inr None
      | Some m \<Rightarrow>
         (case py_int U (grp m 1) of Inl e \<Rightarrow> Inl e | Inr y \<Rightarrow>
         (case py_int U (grp m 2) of Inl e \<Rightarrow> Inl e | Inr mo \<Rightarrow>
         (case py_int U (grp m 3) of Inl e \<Rightarrow> Inl e | Inr d \<Rightarrow>
         (case int_or_zero U (group m 4) of Inl e \<Rightarrow> Inl e | Inr hh \<Rightarrow>
         (case int_or_zero U (group m 5) of Inl e \<Rightarrow> Inl e | Inr mm \<Rightarrow>
         (case new_datetime y mo d hh mm of Inl e \<Rightarrow> Inl e | Inr dt \<Rightarrow> Inr (Some dt))))))))"

definition ci_chr :: "nat \<Rightarrow> rx" where
  \<comment> \<open>a lower-case ASCII letter of a pattern compiled with \<open>re.I\<close>: it matches both cases
      of the letter and the characters \<open>re\<close> folds to it (U+0130 and U+0131 to \<open>i\<close>,
      U+017F to \<open>s\<close>, U+212A to \<open>k\<close>)\<close>
  "ci_chr lo = RSet (\<lambda>c. c = lo \<or> c + 32 = lo \<or> (lo = 105 \<and> (c = 304 \<or> c = 305))
                          \<or> (lo = 115 \<and> c = 383) \<or> (lo = 107 \<and> c = 8490))"

definition ci_word :: "runtime \<Rightarrow> ustr \<Rightarrow> rx" where
  \<comment> \<open>\<open>\bword\b\<close> with \<open>re.I\<close>\<close>
  "ci_word U w = rseq [RWordb (is_word U), foldr (\<lambda>c r. RSeq (ci_chr c) r) w REps,
                       RWordb (is_word U)]"

definition lang_en :: ustr where
  \<comment> \<open>the label U+82F1 U+6587, "English"\<close>
  "lang_en = [33521, 25991]"

definition lang_zh :: ustr where
  \<comment> \<open>the label U+4E2D U+6587, "Chinese"\<close>
  "lang_zh = [20013, 25991]"

definition detect_language :: "runtime \<Rightarrow> ustr \<Rightarrow> ustr" where
  "detect_language U line =
     (let l = strip line
      in if contains lang_en l \<or> (contains [33521] l \<and> contains [25991] l)
            \<or> re_search (ci_word U (asc ''english'')) l \<noteq> None
         then lang_en
         else if contains lang_zh l \<or> (contains [20013] l \<and> contains [25991] l)
            \<or> re_search (ci_word U (asc ''chinese'')) l \<noteq> None
         then lang_zh
         else [])"

definition TOC_PREFIX_RE :: "runtime \<Rightarrow> rx" where
  \<comment> \<open>\<open>^(?:toc\d+)+\<close>\<close>
  "TOC_PREFIX_RE U = rseq [RBol, rplus (rseq [rstr (asc ''toc''), rplus (RSet (is_digit U))])]"

definition NONWORD_PREFIX_RE :: "runtime \<Rightarrow> rx" where
  \<comment> \<open>\<open>^\W+\<close>\<close>
  "NONWORD_PREFIX_RE U = rseq [RBol, rplus (RSet (\<lambda>c. \<not> is_word U c))]"

definition clean_title :: "runtime \<Rightarrow> ustr \<Rightarrow> ustr" where
  "clean_title U title =
     (let t = strip (re_sub (TOC_PREFIX_RE U) [] title)
      in strip (re_sub (NONWORD_PREFIX_RE U) [] t))"

fun sanitize_lines :: "ustr list \<Rightarrow> ustr list" where
  \<comment> \<open>the loop of \<open>body_sanitize\<close>: the \<open>lines\<close> it builds; \<open>break\<close> ends the list\<close>
  "sanitize_lines [] = []"
| "sanitize_lines (ln # rest) =
     (let l = strip ln
      in if l = [] then [] # sanitize_lines rest
         else if 80 < length l \<and> 4 * length l < 5 * hex_count l then []
         else rstrip ln # sanitize_lines rest)"

definition corrupt_line :: "ustr \<Rightarrow> bool" where
  \<comment> \<open>the test of that loop that ends the body: more than 80 characters once stripped,
      more than 0.8 of them hexadecimal digits\<close>
  "corrupt_line ln = (80 < length (strip ln) \<and> 4 * length (strip ln) < 5 * hex_count (strip ln))"

definition kept_line :: "ustr \<Rightarrow> ustr" where
  \<comment> \<open>what that loop appends for a line it keeps\<close>
  "kept_line ln = (if strip ln = [] then [] else rstrip ln)"

definition body_sanitize :: "ustr \<Rightarrow> ustr" where
  "body_sanitize body =
     re_sub NL3_RE [10, 10] (strip (join [10] (sanitize_lines (splitlines body))))"

definition NEAR_FILE_RE :: "runtime \<Rightarrow> rx" where
  \<comment> \<open>U+6587 U+4EF6 ("file"), \<open>\D{0,15}\<close> and the file-id pattern as group 1\<close>
  "NEAR_FILE_RE U = rseq [rchr 25991, rchr 20214,
                          RRep (RSet (\<lambda>c. \<not> is_digit U c)) 0 (Some 15) True,
                          RGrp 1 (FILE_ID_PATTERN U)]"

definition extract_file_id :: "runtime \<Rightarrow> ustr \<Rightarrow> ustr" where
  "extract_file_id U text =
     (case re_search (NEAR_FILE_RE U) text of
        Some m \<Rightarrow> grp m 1
      | None \<Rightarrow>
         (let allm = map (\<lambda>m. grp m 0) (re_finditer (RGrp 0 (FILE_ID_PATTERN U)) text)
          in if allm = [] then [] else last allm))"

definition GEO :: "ustr list" where
  "GEO = map asc
     [''Asia'', ''China'', ''Hong Kong'', ''Macau'', ''Macao'', ''Taiwan'', ''United States'',
      ''U.S.'', ''US'', ''UK'', ''Europe'', ''Beijing'', ''Shanghai'', ''Japan'', ''Korea'',
      ''South Korea'', ''North Korea'', ''Germany'', ''France'', ''Netherlands'', ''Ireland'',
      ''Switzerland'', ''Latin America'', ''Australia'', ''Canada'', ''Singapore'', ''India'',
      ''Russia'', ''Africa'', ''Middle East'']"

definition INDUSTRY_HINTS :: "ustr list" where
  "INDUSTRY_HINTS = map asc
     [''Finance'', ''Investment'', ''Materials'', ''Technology'', ''Energy'', ''Healthcare'',
      ''Pharmaceutical'', ''Mining'', ''Metals'', ''Oil'', ''Gas'', ''Shipping'', ''Logistics'',
      ''Automotive'', ''Real Estate'', ''Telecom'', ''AI'', ''Chip'']"

definition company_chr :: "nat \<Rightarrow> bool" where
  \<comment> \<open>\<open>[A-Za-z0-9&.\-]\<close>\<close>
  "company_chr c = (is_az c \<or> is_digit09 c \<or> c = 38 \<or> c = 46 \<or> c = 45)"

definition company_suffixes :: "ustr list" where
  "company_suffixes = map asc
     [''Inc.'', ''Corp.'', ''Corporation'', ''Ltd.'', ''Limited'', ''Group'', ''Company'',
      ''Co.'', ''PLC'', ''LLC'', ''S.A.'', ''AG'']"

definition COMPANY_RE :: "runtime \<Rightarrow> rx" where
  \<comment> \<open>\<open>\b([A-Z][A-Za-z0-9&.\-]*(?:\s+[A-Z][A-Za-z0-9&.\-]*){0,6}\s+(?:Inc\.|...|AG))\b\<close>\<close>
  "COMPANY_RE U =
     (let tok = RSeq (RSet is_upper_az) (rstar (RSet company_chr));
          ws = rplus (RSet is_space)
      in rseq [RWordb (is_word U),
               RGrp 1 (rseq [tok, RRep (RSeq ws tok) 0 (Some 6) True, ws,
                             ralt (map rstr company_suffixes)]),
               RWordb (is_word U)])"

definition is_industry :: "runtime \<Rightarrow> ustr \<Rightarrow> bool" where
  \<comment> \<open>\<open>any(h.lower() in p.lower() for h in INDUSTRY_HINTS)\<close>\<close>
  "is_industry U p = list_ex (\<lambda>h. contains (str_lower U h) (str_lower U p)) INDUSTRY_HINTS"

fun classify :: "runtime \<Rightarrow> ustr list \<Rightarrow> ustr list \<times> ustr list \<times> ustr list
                  \<Rightarrow> ustr list \<times> ustr list \<times> ustr list" where
  \<comment> \<open>the loop of \<open>split_keywords\<close> over the parts left, on (regions, topics, industries)\<close>
  "classify U [] acc = acc"
| "classify U (p # ps) (regions, topics, industries) =
     (if p \<in> set GEO then classify U ps (regions @ [p], topics, industries)
      else if is_industry U p then classify U ps (regions, topics, industries @ [p])
      else classify U ps (regions, topics @ [p], industries))"

definition kw_parts :: "ustr \<Rightarrow> ustr list" where
  \<comment> \<open>\<open>[p.strip() for p in kw.split(",") if p.strip()]\<close>\<close>
  "kw_parts kw = map strip (filter (\<lambda>p. strip p \<noteq> []) (str_split 44 kw))"

definition split_keywords :: "runtime \<Rightarrow> ustr \<Rightarrow> ustr list \<times> ustr list \<times> ustr list" where
  \<comment> \<open>returns (topics, regions, industries)\<close>
  "split_keywords U kw =
     (case classify U (kw_parts kw) ([], [], []) of
        (regions, topics, industries) \<Rightarrow> (topics, regions, industries))"


subsection \<open>Article segmentation\<close>

record entry =
  title :: ustr
  author :: ustr
  time :: ustr
  language :: ustr
  publisher :: ustr
  ipd :: ustr
  word_count :: int
  body_start_idx :: "nat option"
  title_line_idx :: nat

record article = entry +
  keywords_str :: ustr
  file_no :: ustr
  body :: ustr

definition blank :: "ustr \<Rightarrow> bool" where
  \<comment> \<open>\<open>not line.strip()\<close>\<close>
  "blank line = (strip line = [])"

fun title_index :: "ustr list \<Rightarrow> nat \<Rightarrow> nat option" where
  \<comment> \<open>\<open>j = n - 1; while j >= 0 and not lines[j].strip(): j -= 1\<close>; \<open>None\<close> for \<open>j < 0\<close>\<close>
  "title_index lines 0 = None"
| "title_index lines (Suc j) = (if blank (lines ! j) then title_index lines j else Some j)"

function skip_blank :: "ustr list \<Rightarrow> nat \<Rightarrow> nat" where
  \<comment> \<open>\<open>while p < len(lines) and not lines[p].strip(): p += 1\<close>\<close>
  "skip_blank lines p =
     (if p < length lines \<and> blank (lines ! p) then skip_blank lines (Suc p) else p)"
  by pat_completeness auto
termination
  by (relation "measure (\<lambda>(lines, p). length lines - p)") auto

function skip_text :: "ustr list \<Rightarrow> nat \<Rightarrow> nat" where
  \<comment> \<open>\<open>while s < len(lines) and lines[s].strip(): s += 1\<close>\<close>
  "skip_text lines s =
     (if s < length lines \<and> \<not> blank (lines ! s) then skip_text lines (Suc s) else s)"
  by pat_completeness auto
termination
  by (relation "measure (\<lambda>(lines, s). length lines - s)") auto

fun lang_scan :: "runtime \<Rightarrow> ustr list \<Rightarrow> nat \<Rightarrow> nat \<Rightarrow> ustr \<times> nat" where
  \<comment> \<open>the \<open>for _ in range(n)\<close> loop from \<open>q\<close>: the language found and where the loop stops\<close>
  "lang_scan U lines 0 q = ([], q)"
| "lang_scan U lines (Suc n) q =
     (if length lines \<le> q then ([], q)
      else (let lang = detect_language U (lines ! q)
            in if lang \<noteq> [] then (lang, q) else lang_scan U lines n (Suc q)))"

definition IPD_RE :: rx where
  \<comment> \<open>\<open>[A-Z0-9]{2,10}\<close>\<close>
  "IPD_RE = RRep (RSet (\<lambda>c. is_upper_az c \<or> is_digit09 c)) 2 (Some 10) True"

definition line_or_empty :: "ustr list \<Rightarrow> nat \<Rightarrow> ustr" where
  \<comment> \<open>\<open>lines[p].strip() if p < len(lines) else ""\<close>\<close>
  "line_or_empty lines p = (if p < length lines then strip (lines ! p) else [])"

definition author_of :: "ustr list \<Rightarrow> nat \<Rightarrow> nat \<Rightarrow> ustr" where
  \<comment> \<open>the non-blank lines strictly between the title line and the anchor, joined by " | "\<close>
  "author_of lines j wc_i =
     join (asc '' | '') (map (\<lambda>k. strip (lines ! k)) (filter (\<lambda>k. \<not> blank (lines ! k)) [Suc j..<wc_i]))"

definition word_count_of :: "runtime \<Rightarrow> ustr \<Rightarrow> error + int" where
  \<comment> \<open>\<open>int(WORDCOUNT_RE.search(line).group(1).replace(",", ""))\<close>\<close>
  "word_count_of U line =
     (case re_search (WORDCOUNT_RE U) line of
        None \<Rightarrow> Inl ValueError
      | Some m \<Rightarrow> py_int U (filter (\<lambda>c. c \<noteq> 44) (grp m 1)))"

definition metadata :: "runtime \<Rightarrow> ustr list \<Rightarrow> nat \<Rightarrow> nat \<Rightarrow> nat \<Rightarrow> datetime \<Rightarrow> int \<Rightarrow> entry" where
  \<comment> \<open>the rest of one turn of the loop, once the title line \<open>j\<close>, the date line \<open>p\<close>, the
      date and the word count are there: publisher, IPD, language and body start\<close>
  "metadata U lines wc_i j p dt wc =
     (let p1 = skip_blank lines (Suc p);
          publisher = line_or_empty lines p1;
          p2 = skip_blank lines (Suc p1);
          ipd_candidate = line_or_empty lines p2;
          ipd = (if re_fullmatch IPD_RE ipd_candidate \<noteq> None then ipd_candidate else []);
          p3 = (if ipd \<noteq> [] then Suc p2 else p2);
          (lang, q) = lang_scan U lines 25 p3;
          s = skip_blank lines (skip_text lines q)
      in \<lparr>title = strip (lines ! j),
          author = author_of lines j wc_i,
          time = isoformat dt,
          language = lang,
          publisher = publisher,
          ipd = ipd,
          word_count = wc,
          body_start_idx = (if s < length lines then Some s else None),
          title_line_idx = j\<rparr>)"

definition scan_anchor :: "runtime \<Rightarrow> ustr list \<Rightarrow> nat \<Rightarrow> error + entry option" where
  \<comment> \<open>one turn of the loop over the anchors: \<open>Inr None\<close> is \<open>continue\<close>, \<open>Inl\<close> an
      exception that leaves \<open>split_articles\<close>\<close>
  "scan_anchor U lines wc_i =
     (case title_index lines wc_i of
        None \<Rightarrow> Inr None
      | Some j \<Rightarrow>
         (let p = skip_blank lines (Suc wc_i)
          in if length lines \<le> p then Inr None
             else (case parse_factiva_date U (lines ! p) of
                     Inl e \<Rightarrow> Inl e
                   | Inr None \<Rightarrow> Inr None
                   | Inr (Some dt) \<Rightarrow>
                      (case word_count_of U (lines ! wc_i) of
                         Inl e \<Rightarrow> Inl e
                       | Inr wc \<Rightarrow> Inr (Some (metadata U lines wc_i j p dt wc))))))"

fun scan_anchors :: "runtime \<Rightarrow> ustr list \<Rightarrow> nat list \<Rightarrow> error + entry list" where
  "scan_anchors U lines [] = Inr []"
| "scan_anchors U lines (wc_i # rest) =
     (case scan_anchor U lines wc_i of
        Inl e \<Rightarrow> Inl e
      | Inr r \<Rightarrow>
         (case scan_anchors U lines rest of
            Inl e \<Rightarrow> Inl e
          | Inr as \<Rightarrow> Inr (case r of None \<Rightarrow> as | Some a \<Rightarrow> a # as)))"

definition KEYWORDS_RE :: rx where
  \<comment> \<open>\<open>Keywords for this news article include:\s*(.+)\<close>\<close>
  "KEYWORDS_RE = rseq [rstr (asc ''Keywords for this news article include:''),
                       rstar (RSet is_space), RGrp 1 (rplus rdot)]"

definition BY_RE :: rx where
  \<comment> \<open>\<open>--\s*By\s+([^-\n]+)\<close>\<close>
  "BY_RE = rseq [rstr (asc ''--''), rstar (RSet is_space), rstr (asc ''By''),
                 rplus (RSet is_space), RGrp 1 (rplus (RSet (\<lambda>c. c \<noteq> 45 \<and> c \<noteq> 10)))]"

definition slice :: "'a list \<Rightarrow> nat \<Rightarrow> nat \<Rightarrow> 'a list" where
  \<comment> \<open>\<open>xs[start:end]\<close> for indices that are not negative\<close>
  "slice xs start end = take (end - start) (drop start xs)"

definition body_text_of :: "ustr list \<Rightarrow> nat option \<Rightarrow> nat \<Rightarrow> ustr" where
  \<comment> \<open>\<open>"\n".join(lines[start:end]).strip() if start is not None else ""\<close>, sanitized\<close>
  "body_text_of lines start end =
     body_sanitize (case start of None \<Rightarrow> [] | Some s \<Rightarrow> strip (join [10] (slice lines s end)))"

definition rstrip_dots :: "ustr \<Rightarrow> ustr" where
  \<comment> \<open>\<open>s.rstrip(".")\<close>\<close>
  "rstrip_dots s = rev (dropWhile (\<lambda>c. c = 46) (rev s))"

definition attach :: "runtime \<Rightarrow> ustr list \<Rightarrow> entry \<Rightarrow> nat \<Rightarrow> article" where
  \<comment> \<open>one turn of the second loop; \<open>end\<close> is where the body of the article stops\<close>
  "attach U lines a end =
     (let body_text = body_text_of lines (body_start_idx a) end;
          kws = (case re_search KEYWORDS_RE body_text of
                   None \<Rightarrow> []
                 | Some km \<Rightarrow> rstrip_dots (strip (grp km 1)));
          file_id = extract_file_id U body_text;
          auth = (if author a = []
                  then (case re_search BY_RE body_text of
                          None \<Rightarrow> author a
                        | Some m \<Rightarrow> strip (grp m 1))
                  else author a)
      in entry.extend (a\<lparr>author := auth\<rparr>)
           (article.fields kws file_id body_text))"

fun attach_bodies :: "runtime \<Rightarrow> ustr list \<Rightarrow> entry list \<Rightarrow> article list" where
  \<comment> \<open>the second loop: article i ends at the title line of article i + 1, the last one
      at \<open>len(lines)\<close>\<close>
  "attach_bodies U lines [] = []"
| "attach_bodies U lines (a # rest) =
     attach U lines a (case rest of [] \<Rightarrow> length lines | b # _ \<Rightarrow> title_line_idx b)
     # attach_bodies U lines rest"

definition text_lines :: "ustr \<Rightarrow> ustr list" where
  \<comment> \<open>\<open>[ln.rstrip() for ln in text.splitlines()]\<close>\<close>
  "text_lines text = map rstrip (splitlines text)"

definition anchors :: "runtime \<Rightarrow> ustr list \<Rightarrow> nat list" where
  \<comment> \<open>\<open>[i for i, l in enumerate(lines) if WORDCOUNT_RE.search(l)]\<close>\<close>
  "anchors U lines =
     filter (\<lambda>i. re_search (WORDCOUNT_RE U) (lines ! i) \<noteq> None) [0..<length lines]"

definition split_articles :: "runtime \<Rightarrow> ustr \<Rightarrow> error + article list" where
  "split_articles U text =
     (let lines = text_lines text
      in case scan_anchors U lines (anchors U lines) of
           Inl e \<Rightarrow> Inl e
         | Inr articles \<Rightarrow> Inr (attach_bodies U lines articles))"

subsection \<open>Rows\<close>

record row =
  r_title :: ustr
  r_author :: ustr
  r_time :: ustr
  r_language :: ustr
  r_body :: ustr
  r_ipd :: ustr
  r_topics :: ustr
  r_regions :: ustr
  r_publisher :: ustr
  r_file_no :: ustr
  r_companies :: ustr
  r_industries :: ustr
  r_word_count :: int

definition companies_of :: "runtime \<Rightarrow> ustr \<Rightarrow> ustr list" where
  \<comment> \<open>\<open>sorted(set(m.group(1) for m in COMPANY_RE.finditer(sample_text)))\<close>\<close>
  "companies_of U sample_text =
     sort (remdups (map (\<lambda>m. grp m 1) (re_finditer (COMPANY_RE U) sample_text)))"

definition sample_text_of :: "ustr \<Rightarrow> ustr \<Rightarrow> ustr" where
  \<comment> \<open>\<open>title + "\n" + "\n".join(body.splitlines()[:30])\<close>\<close>
  "sample_text_of ttl bdy = ttl @ [10] @ join [10] (take 30 (splitlines bdy))"

definition to_row :: "runtime \<Rightarrow> article \<Rightarrow> row" where
  "to_row U a =
     (let ttl = clean_title U (title a);
          (topics, regions, industries) = split_keywords U (keywords_str a);
          companies = companies_of U (sample_text_of ttl (body a))
      in \<lparr>r_title = ttl,
          r_author = author a,
          r_time = time a,
          r_language = language a,
          r_body = body a,
          r_ipd = ipd a,
          r_topics = join (asc ''; '') topics,
          r_regions = join (asc ''; '') regions,
          r_publisher = publisher a,
          r_file_no = file_no a,
          r_companies = join (asc ''; '') companies,
          r_industries = join (asc ''; '') industries,
          r_word_count = word_count a\<rparr>)"

definition from_banner :: "ustr \<Rightarrow> ustr" where
  \<comment> \<open>\<open>txt[start_idx:]\<close> when \<open>txt.find("Factiva RTF Display Format")\<close> is not -1\<close>
  "from_banner txt =
     (case str_find (asc ''Factiva RTF Display Format'') txt of
        None \<Rightarrow> txt
      | Some i \<Rightarrow> drop i txt)"

definition rtf_factiva_to_rows :: "runtime \<Rightarrow> ustr \<Rightarrow> error + row list" where
  \<comment> \<open>from \<open>raw\<close>, the text that \<open>read_text\<close> returned\<close>
  "rtf_factiva_to_rows U raw =
     (case rtf_to_text U raw of
        Inl e \<Rightarrow> Inl e
      | Inr txt \<Rightarrow>
         (case split_articles U (preprocess U (clean_factiva_text U (from_banner txt))) of
            Inl e \<Rightarrow> Inl e
          | Inr articles \<Rightarrow> Inr (map (to_row U) articles)))"

subsection \<open>A runtime for the examples\<close>

definition latin_cjk :: runtime where
  \<comment> \<open>the interpreter's tables on Basic Latin, Latin-1 and the CJK ideographs U+4E00 to
      U+9FFF, the blocks the examples below are written in, with the default digit limit\<close>
  "latin_cjk =
     \<lparr>decimal_of = (\<lambda>c. if is_digit09 c then Some (c - 48) else None),
      is_alnum = (\<lambda>c. is_digit09 c \<or> is_az c \<or> c = 170 \<or> c = 178 \<or> c = 179 \<or> c = 181
                      \<or> c = 185 \<or> c = 186 \<or> (188 \<le> c \<and> c \<le> 190) \<or> (192 \<le> c \<and> c \<le> 214)
                      \<or> (216 \<le> c \<and> c \<le> 246) \<or> (248 \<le> c \<and> c \<le> 255)
                      \<or> (19968 \<le> c \<and> c \<le> 40959)),
      is_printable = (\<lambda>c. (32 \<le> c \<and> c \<le> 126) \<or> (161 \<le> c \<and> c \<le> 172)
                      \<or> (174 \<le> c \<and> c \<le> 255) \<or> (19968 \<le> c \<and> c \<le> 40959)),
      str_lower = map (\<lambda>c. if is_upper_az c \<or> (192 \<le> c \<and> c \<le> 214) \<or> (216 \<le> c \<and> c \<le> 222)
                            then c + 32 else c),
      int_max_str_digits = 4300\<rparr>"

subsection \<open>Example documents\<close>

definition ipd_doc :: "ustr list" where
  \<comment> \<open>the lines of an article whose line after the publisher is not an IPD code\<close>
  "ipd_doc = [asc ''Title'', asc ''5'' @ [23383],
              asc ''2024'' @ [24180] @ asc ''3'' @ [26376] @ asc ''5'' @ [26085],
              asc ''Publisher'', asc ''English'', [], asc ''Body'']"



section \<open>Evaluation\<close>

text \<open>
  Equations that let the simplifier run the model on a concrete input: the tables of
  the example runtime, and the recursions on a counter stated for numerals.
\<close>

lemma latin_cjk_sel:
  "decimal_of latin_cjk c = (if is_digit09 c then Some (c - 48) else None)"
  "is_alnum latin_cjk c = (is_digit09 c \<or> is_az c \<or> c = 170 \<or> c = 178 \<or> c = 179 \<or> c = 181
                      \<or> c = 185 \<or> c = 186 \<or> (188 \<le> c \<and> c \<le> 190) \<or> (192 \<le> c \<and> c \<le> 214)
                      \<or> (216 \<le> c \<and> c \<le> 246) \<or> (248 \<le> c \<and> c \<le> 255)
                      \<or> (19968 \<le> c \<and> c \<le> 40959))"
  "is_printable latin_cjk c = ((32 \<le> c \<and> c \<le> 126) \<or> (161 \<le> c \<and> c \<le> 172)
                      \<or> (174 \<le> c \<and> c \<le> 255) \<or> (19968 \<le> c \<and> c \<le> 40959))"
  "str_lower latin_cjk s = map (\<lambda>c. if is_upper_az c \<or> (192 \<le> c \<and> c \<le> 214) \<or> (216 \<le> c \<and> c \<le> 222)
                            then c + 32 else c) s"
  "int_max_str_digits latin_cjk = 4300"
  by (simp_all add: latin_cjk_def)
lemma rep_num:
  "rep f g (numeral k) n st = concat (map (rep f g (pred_numeral k) n) (f st))"
  "rep f g 0 (numeral k) st =
     (if g then concat (map (rep f g 0 (pred_numeral k)) (f st)) @ [st]
      else st # concat (map (rep f g 0 (pred_numeral k)) (f st)))"
  by (simp_all add: numeral_eq_Suc)

lemma title_index_num:
  "title_index lines (numeral k) =
     (if blank (lines ! pred_numeral k) then title_index lines (pred_numeral k)
      else Some (pred_numeral k))"
  by (simp add: numeral_eq_Suc)

lemma lang_scan_num:
  "lang_scan U lines (numeral k) q =
     (if length lines \<le> q then ([], q)
      else (let lang = detect_language U (lines ! q)
            in if lang \<noteq> [] then (lang, q) else lang_scan U lines (pred_numeral k) (Suc q)))"
  by (simp add: numeral_eq_Suc)

declare skip_blank.simps [simp del] skip_text.simps [simp del]

lemma skip_blank_num:
  "skip_blank lines 0 = (if 0 < length lines \<and> blank (lines ! 0) then skip_blank lines (Suc 0) else 0)"
  "skip_blank lines (Suc 0) =
     (if Suc 0 < length lines \<and> blank (lines ! Suc 0) then skip_blank lines (Suc (Suc 0)) else Suc 0)"
  "skip_blank lines (numeral k) =
     (if numeral k < length lines \<and> blank (lines ! numeral k)
      then skip_blank lines (Suc (numeral k)) else numeral k)"
  by (subst skip_blank.simps, simp)+

lemma skip_text_num:
  "skip_text lines 0 = (if 0 < length lines \<and> \<not> blank (lines ! 0) then skip_text lines (Suc 0) else 0)"
  "skip_text lines (Suc 0) =
     (if Suc 0 < length lines \<and> \<not> blank (lines ! Suc 0) then skip_text lines (Suc (Suc 0)) else Suc 0)"
  "skip_text lines (numeral k) =
     (if numeral k < length lines \<and> \<not> blank (lines ! numeral k)
      then skip_text lines (Suc (numeral k)) else numeral k)"
  by (subst skip_text.simps, simp)+

lemma upt_num:
  "[0..<numeral n] = 0 # [Suc 0..<numeral n]"
  "[Suc 0..<numeral n] = (if Suc 0 < numeral n then Suc 0 # [Suc (Suc 0)..<numeral n] else [])"
  by (simp_all add: upt_rec)

lemma replicate_num: "replicate (numeral k) x = x # replicate (pred_numeral k) x"
  by (simp add: numeral_eq_Suc)

lemmas ev = numeral_2_eq_2 [symmetric] upt_num replicate_num corrupt_line_def kept_line_def noise_line_def asc_def is_space_def is_linebreak_def is_digit_def is_word_def is_upper_az_def is_lower_az_def
  is_digit09_def is_hex_def lstrip_def rstrip_def strip_def group_def re_search_def re_fullmatch_def
  re_sub_def re_finditer_def rchr_def rstr_def rseq_def rstar_def rplus_def ropt_def rdot_def rchars_def
  py_int_def is_leap_def days_in_month_def valid_datetime_def new_datetime_def digit_chr_def zpad2_def
  zpad4_def isoformat_def grp_def chr_or_empty_def uni_repl_def hex_val_def cp1252_high_def cp1252_def
  hex_repl_def is_az_def UNI_RE_def HEX_RE_def CTRL_WORD_RE_def CTRL_SYM_RE_def NL3_RE_def TRAIL_WS_RE_def
  rtf_to_text_def hex_count_def printable_line_def clean_factiva_text_def TOC_LINK_RE_def D_PAGE_RE_def
  PAGE_RE_def NUMPAGES_RE_def preprocess_def WORDCOUNT_RE_def FILE_ID_PATTERN_def DATE_RE_def
  int_or_zero_def parse_factiva_date_def ci_chr_def ci_word_def lang_en_def lang_zh_def detect_language_def
  TOC_PREFIX_RE_def NONWORD_PREFIX_RE_def clean_title_def body_sanitize_def NEAR_FILE_RE_def
  extract_file_id_def GEO_def INDUSTRY_HINTS_def company_chr_def company_suffixes_def COMPANY_RE_def
  is_industry_def kw_parts_def split_keywords_def blank_def IPD_RE_def line_or_empty_def author_of_def
  word_count_of_def metadata_def scan_anchor_def KEYWORDS_RE_def BY_RE_def slice_def body_text_of_def
  rstrip_dots_def attach_def text_lines_def anchors_def split_articles_def companies_of_def
  sample_text_of_def to_row_def from_banner_def rtf_factiva_to_rows_def latin_cjk_sel Let_def rep_num title_index_num lang_scan_num skip_blank_num skip_text_num
  entry.defs article.defs

section \<open>The taxonomy classifier\<close>

lemma classify_filter:
  "classify U ps (r, t, i) =
     (r @ filter (\<lambda>p. p \<in> set GEO) ps,
      t @ filter (\<lambda>p. p \<notin> set GEO \<and> \<not> is_industry U p) ps,
      i @ filter (\<lambda>p. p \<notin> set GEO \<and> is_industry U p) ps)"
  by (induction ps arbitrary: r t i) simp_all

lemma kw_parts_alt: "kw_parts kw = filter (\<lambda>p. p \<noteq> []) (map strip (str_split 44 kw))"
  by (simp add: kw_parts_def filter_map comp_def)

text \<open>
  Claim C5. The classifier splits the keyword string on commas, trims every token and
  discards the empty ones; each remaining token goes to exactly one bucket: the regions
  when it is a member of \<open>GEO\<close>, otherwise the industries when the lower-cased token
  contains a lower-cased industry hint, otherwise the topics. The buckets keep the order
  of the tokens, are pairwise disjoint and together hold every token, each occurrence
  once.
\<close>

theorem split_keywords_buckets:
  "split_keywords U kw =
     (filter (\<lambda>p. p \<notin> set GEO \<and> \<not> is_industry U p) (kw_parts kw),
      filter (\<lambda>p. p \<in> set GEO) (kw_parts kw),
      filter (\<lambda>p. p \<notin> set GEO \<and> is_industry U p) (kw_parts kw))
   \<and> kw_parts kw = filter (\<lambda>p. p \<noteq> []) (map strip (str_split 44 kw))
   \<and> (case split_keywords U kw of (topics, regions, industries) \<Rightarrow>
         set topics \<union> set regions \<union> set industries = set (kw_parts kw)
         \<and> set topics \<inter> set regions = {} \<and> set topics \<inter> set industries = {}
         \<and> set regions \<inter> set industries = {}
         \<and> length topics + length regions + length industries = length (kw_parts kw))"
proof -
  have eq: "split_keywords U kw =
     (filter (\<lambda>p. p \<notin> set GEO \<and> \<not> is_industry U p) (kw_parts kw),
      filter (\<lambda>p. p \<in> set GEO) (kw_parts kw),
      filter (\<lambda>p. p \<notin> set GEO \<and> is_industry U p) (kw_parts kw))"
    by (simp add: split_keywords_def classify_filter)
  have len: "length (filter (\<lambda>p. p \<notin> set GEO \<and> \<not> is_industry U p) ps)
           + length (filter (\<lambda>p. p \<in> set GEO) ps)
           + length (filter (\<lambda>p. p \<notin> set GEO \<and> is_industry U p) ps) = length ps" for ps
    by (induction ps) auto
  show ?thesis
    unfolding eq using len [of "kw_parts kw"] kw_parts_alt [of kw] by auto
qed

text \<open>The spec's example: a region, an industry and a topic.\<close>

theorem split_keywords_buckets_witness:
  "split_keywords latin_cjk (asc ''China, Technology, Quantum Computing'') =
     ([asc ''Quantum Computing''], [asc ''China''], [asc ''Technology''])
   \<and> kw_parts (asc ''China, Technology, Quantum Computing'') =
     [asc ''China'', asc ''Technology'', asc ''Quantum Computing'']"
  using split_keywords_buckets [of latin_cjk "asc ''China, Technology, Quantum Computing''"]
  by (simp add: ev)

subsection \<open>Splitting and joining tokens\<close>

lemma rstrip_prefix: "\<exists>v. t = rev (dropWhile P (rev t)) @ v"
proof -
  have "rev t = takeWhile P (rev t) @ dropWhile P (rev t)" by simp
  then have "t = rev (dropWhile P (rev t)) @ rev (takeWhile P (rev t))"
    by (metis rev_append rev_rev_ident)
  then show ?thesis ..
qed

lemma lstrip_rstrip:
  assumes "t = [] \<or> \<not> P (hd t)"
  shows "dropWhile P (rev (dropWhile P (rev t))) = rev (dropWhile P (rev t))"
proof (cases "rev (dropWhile P (rev t))")
  case Nil
  show ?thesis unfolding Nil by simp
next
  case (Cons a u)
  obtain v where "t = rev (dropWhile P (rev t)) @ v" using rstrip_prefix by blast
  with Cons have "t = (a # u) @ v" by simp
  then have "hd t = a" "t \<noteq> []" by auto
  with assms have "\<not> P a" by auto
  with Cons show ?thesis by simp
qed

lemma strip_idem: "strip (strip s) = strip s"
proof -
  have h: "dropWhile is_space s = [] \<or> \<not> is_space (hd (dropWhile is_space s))"
    by (metis hd_dropWhile)
  show ?thesis
    unfolding strip_def lstrip_def rstrip_def
    by (simp add: lstrip_rstrip [of "dropWhile is_space s" is_space, OF h])
qed

lemma set_strip: "set (strip s) \<subseteq> set s"
  unfolding strip_def lstrip_def rstrip_def
  by (metis (no_types) set_dropWhileD set_rev subsetI)

lemma str_split_no_sep: "p \<in> set (str_split c s) \<Longrightarrow> c \<notin> set p"
  by (induction s arbitrary: p) (auto split: if_splits list.splits)

lemma str_split_nonempty: "str_split c s \<noteq> []"
  by (induction s) (auto split: list.splits)

lemma str_split_sepfree: "c \<notin> set p \<Longrightarrow> str_split c p = [p]"
  by (induction p) auto

lemma str_split_append:
  "c \<notin> set p \<Longrightarrow> str_split c (p @ c # s) = p # str_split c s"
  by (induction p) (auto split: list.splits simp: str_split_nonempty)

lemma str_split_join:
  "ps \<noteq> [] \<Longrightarrow> \<forall>p \<in> set ps. c \<notin> set p \<Longrightarrow> str_split c (join [c] ps) = ps"
proof (induction "[c]" ps rule: join.induct)
  case 1
  then show ?case by simp
next
  case (2 x)
  then show ?case by (simp add: str_split_sepfree)
next
  case (3 x y ys)
  then show ?case by (simp add: str_split_append)
qed

lemma kw_parts_props:
  "p \<in> set (kw_parts kw) \<Longrightarrow> p \<noteq> [] \<and> strip p = p \<and> 44 \<notin> set p"
  unfolding kw_parts_def
  using str_split_no_sep set_strip strip_idem by (auto, blast)

lemma kw_parts_join:
  assumes "\<forall>p \<in> set b. p \<noteq> [] \<and> strip p = p \<and> 44 \<notin> set p"
  shows "kw_parts (join [44] b) = b"
proof (cases b)
  case Nil
  then show ?thesis by (simp add: kw_parts_def strip_def lstrip_def rstrip_def)
next
  case (Cons x xs)
  then have "str_split 44 (join [44] b) = b"
    using assms str_split_join [of b 44] by auto
  moreover have "filter (\<lambda>p. strip p \<noteq> []) b = b" using assms by (simp add: filter_id_conv)
  moreover have "map strip b = b" using assms by (simp add: map_idI)
  ultimately show ?thesis by (simp add: kw_parts_def)
qed

text \<open>
  Claim C8. The classifier is idempotent: when it yields the buckets (topics, regions,
  industries) for a keyword string, running it again on the tokens of one bucket joined
  by commas gives that bucket back, in the same order, and leaves the other two buckets
  empty.
\<close>

theorem classifier_idempotent:
  assumes "split_keywords U kw = (topics, regions, industries)"
  shows "split_keywords U (join [44] topics) = (topics, [], [])
       \<and> split_keywords U (join [44] regions) = ([], regions, [])
       \<and> split_keywords U (join [44] industries) = ([], [], industries)"
proof -
  let ?T = "\<lambda>p. p \<notin> set GEO \<and> \<not> is_industry U p"
  let ?G = "\<lambda>p. p \<in> set GEO"
  let ?I = "\<lambda>p. p \<notin> set GEO \<and> is_industry U p"
  have buckets: "topics = filter ?T (kw_parts kw)" "regions = filter ?G (kw_parts kw)"
    "industries = filter ?I (kw_parts kw)"
    using assms by (simp_all add: split_keywords_def classify_filter)
  have again: "split_keywords U (join [44] b) = (filter ?T b, filter ?G b, filter ?I b)"
    if "set b \<subseteq> set (kw_parts kw)" for b
  proof -
    have "\<forall>p \<in> set b. p \<noteq> [] \<and> strip p = p \<and> 44 \<notin> set p"
      using that kw_parts_props by blast
    then have "kw_parts (join [44] b) = b" by (rule kw_parts_join)
    then show ?thesis by (simp add: split_keywords_def classify_filter)
  qed
  have t: "split_keywords U (join [44] topics) = (topics, [], [])"
    using again [of topics] by (auto simp: buckets filter_empty_conv)
  have r: "split_keywords U (join [44] regions) = ([], regions, [])"
    using again [of regions] by (auto simp: buckets filter_empty_conv)
  have i: "split_keywords U (join [44] industries) = ([], [], industries)"
    using again [of industries] by (auto simp: buckets filter_empty_conv)
  from t r i show ?thesis by simp
qed

text \<open>Four keywords, two of them regions, so that a joined bucket holds a comma.\<close>

theorem classifier_idempotent_witness:
  "split_keywords latin_cjk (asc ''China, Technology, Quantum Computing, Japan'') =
     ([asc ''Quantum Computing''], [asc ''China'', asc ''Japan''], [asc ''Technology''])
   \<and> split_keywords latin_cjk (join [44] [asc ''Quantum Computing'']) =
       ([asc ''Quantum Computing''], [], [])
   \<and> split_keywords latin_cjk (join [44] [asc ''China'', asc ''Japan'']) = ([], [asc ''China'', asc ''Japan''], [])
   \<and> split_keywords latin_cjk (join [44] [asc ''Technology'']) = ([], [], [asc ''Technology''])"
proof -
  have h: "split_keywords latin_cjk (asc ''China, Technology, Quantum Computing, Japan'') =
     ([asc ''Quantum Computing''], [asc ''China'', asc ''Japan''], [asc ''Technology''])"
    by (simp add: ev)
  from h classifier_idempotent [OF h] show ?thesis by (rule conjI)
qed

section \<open>The IPD code\<close>

lemma rep_step_full:
  "(\<exists>m \<in> set (rep (step P) g lo n (pv, s, caps)). fst (snd m) = [])
     \<longleftrightarrow> (lo \<le> length s \<and> length s \<le> lo + n \<and> list_all P s)"
proof (induction "step P" g lo n "(pv, s, caps)" arbitrary: pv s rule: rep.induct)
  case (1 g lo n)
  then show ?case by (cases s) auto
next
  case (2 g n)
  then show ?case by (cases s) auto
next
  case (3 g)
  then show ?case by (cases s) auto
qed

lemma mt_RSet: "mt (RSet P) = step P"
  by (rule ext) simp

lemma fullmatch_IPD:
  "re_fullmatch IPD_RE s \<noteq> None
     \<longleftrightarrow> (2 \<le> length s \<and> length s \<le> 10 \<and> list_all (\<lambda>c. is_upper_az c \<or> is_digit09 c) s)"
proof -
  let ?ms = "rep (step (\<lambda>c. is_upper_az c \<or> is_digit09 c)) True 2 8 (None, s, [])"
  have "re_fullmatch IPD_RE s \<noteq> None \<longleftrightarrow> filter (\<lambda>m. fst (snd m) = []) ?ms \<noteq> []"
    by (simp add: re_fullmatch_def IPD_RE_def mt_RSet split: list.splits)
  also have "\<dots> \<longleftrightarrow> (\<exists>m \<in> set ?ms. fst (snd m) = [])"
    by (simp add: filter_empty_conv)
  finally show ?thesis by (simp add: rep_step_full)
qed

text \<open>
  Claim C6. In the metadata of an article, the IPD candidate is the next non-blank line
  after the publisher line (stripped, as the code reads every line). It becomes the IPD
  field only if all of it is 2 to 10 characters from \<open>A-Z\<close> and \<open>0-9\<close>; otherwise
  the IPD field is empty and the cursor stays, so that the language scan starts at the
  candidate line itself: a language marker on that line sets the language. After an
  accepted IPD the scan starts one line further.
\<close>

theorem ipd_acceptance:
  assumes "p2 = skip_blank lines (Suc (skip_blank lines (Suc p)))"
      and "cand = line_or_empty lines p2"
      and "m = metadata U lines wc_i j p dt wc"
      and "ok = (2 \<le> length cand \<and> length cand \<le> 10
                 \<and> (\<forall>c \<in> set cand. is_upper_az c \<or> is_digit09 c))"
  shows "ipd m = (if ok then cand else [])
       \<and> language m = fst (lang_scan U lines 25 (if ok then Suc p2 else p2))
       \<and> (\<not> ok \<and> p2 < length lines \<and> detect_language U (lines ! p2) \<noteq> []
            \<longrightarrow> language m = detect_language U (lines ! p2))"
proof -
  have fm: "re_fullmatch IPD_RE cand \<noteq> None \<longleftrightarrow> ok"
    unfolding assms(4) fullmatch_IPD by (simp add: list_all_iff)
  have ne: "ok \<Longrightarrow> cand \<noteq> []" unfolding assms(4) by auto
  have i: "ipd m = (if ok then cand else [])"
    using fm unfolding assms(3) metadata_def Let_def assms(1,2)[symmetric]
    by (simp add: split_beta)
  have l: "language m = fst (lang_scan U lines 25 (if ok then Suc p2 else p2))"
    using fm ne unfolding assms(3) metadata_def Let_def assms(1,2)[symmetric]
    by (simp add: split_beta)
  have f: "language m = detect_language U (lines ! p2)"
    if "\<not> ok" "p2 < length lines" "detect_language U (lines ! p2) \<noteq> []"
    using that l lang_scan_num [of U lines _ p2] by (simp add: Let_def)
  from i l f show ?thesis by blast
qed


text \<open>
  The candidate line "English" is not an IPD code: the field stays empty and the same
  line gives the language.
\<close>

theorem ipd_acceptance_witness:
  "ipd (metadata latin_cjk ipd_doc 1 0 2
          \<lparr>year = 2024, month = 3, day = 5, hour = 0, minute = 0\<rparr> 5) = []
   \<and> language (metadata latin_cjk ipd_doc 1 0 2
          \<lparr>year = 2024, month = 3, day = 5, hour = 0, minute = 0\<rparr> 5) = lang_en
   \<and> line_or_empty ipd_doc 4 = asc ''English''"
  using ipd_acceptance [of 4 ipd_doc 2 "asc ''English''"
      "metadata latin_cjk ipd_doc 1 0 2 \<lparr>year = 2024, month = 3, day = 5, hour = 0, minute = 0\<rparr> 5"
      latin_cjk 1 0 "\<lparr>year = 2024, month = 3, day = 5, hour = 0, minute = 0\<rparr>" 5 False]
  by (simp add: ev ipd_doc_def cong: let_weak_cong)

section \<open>The noise filter\<close>




lemma sanitize_lines_clean:
  "\<forall>j < length ls. \<not> corrupt_line (ls ! j) \<Longrightarrow> sanitize_lines ls = map kept_line ls"
proof (induction ls)
  case Nil
  then show ?case by simp
next
  case (Cons l ls)
  from Cons.prems have "\<not> corrupt_line l" by auto
  moreover from Cons.prems have "\<forall>j < length ls. \<not> corrupt_line (ls ! j)" by auto
  ultimately show ?case
    using Cons.IH by (auto simp: Let_def corrupt_line_def kept_line_def)
qed






section \<open>Body sanitization\<close>



end
